theory Spec2Isabelle
  imports Complex_Main
begin

section \<open>pycohortflow: colour helpers, text wrapping, style merge and layout\<close>

text \<open>
  The development follows \<^verbatim>\<open>src/pycohortflow/cfd_util.py\<close> and
  \<^verbatim>\<open>src/pycohortflow/cfd.py\<close>. A Python string is a list of characters
  (code points below 256), a Python integer is an \<^typ>\<open>int\<close>, a raised exception is
  the left summand of a sum type, and the numbers of a style document are exact reals, so
  that the rounding of binary floating point is outside the model.
\<close>

subsection \<open>Exceptions, whitespace, integer formatting\<close>

text \<open>
  Every exception of the modelled code is a \<^verbatim>\<open>ValueError\<close>, a
  \<^verbatim>\<open>TypeError\<close> or an \<^verbatim>\<open>IndexError\<close>. The
  \<^verbatim>\<open>ValueError\<close>s raised by the package itself and by \<^verbatim>\<open>textwrap\<close>
  carry their message; the one of \<^verbatim>\<open>int(s, 16)\<close> and the one of
  \<^verbatim>\<open>matplotlib.colors.to_hex\<close> carry the rejected string instead of the
  message built from its \<^verbatim>\<open>repr\<close>.
\<close>

datatype error =
    ValueError string
  | InvalidLiteral string
  | InvalidRGBA string
  | TypeError
  | IndexError

definition bind_err :: "error + 'a \<Rightarrow> ('a \<Rightarrow> error + 'b) \<Rightarrow> error + 'b" where
  "bind_err r f = (case r of Inl e \<Rightarrow> Inl e | Inr x \<Rightarrow> f x)"

text \<open>\<^verbatim>\<open>str.isspace\<close> on the code points below 256; \<^verbatim>\<open>str.strip()\<close> removes
  such characters from both ends.\<close>

definition py_isspace :: "char \<Rightarrow> bool" where
  "py_isspace c = (of_char c \<in> {9, 10, 11, 12, 13, 28, 29, 30, 31, 32, 133, 160 :: nat})"

definition strip :: "string \<Rightarrow> string" where
  "strip s = rev (dropWhile py_isspace (rev (dropWhile py_isspace s)))"

text \<open>\<^verbatim>\<open>str.lower\<close> on the code points below 256.\<close>

definition py_lower :: "char \<Rightarrow> char" where
  "py_lower c =
     (let k = (of_char c :: nat) in
      if (65 \<le> k \<and> k \<le> 90) \<or> (192 \<le> k \<and> k \<le> 214) \<or> (216 \<le> k \<and> k \<le> 222)
      then char_of (k + 32) else c)"

definition digit_chars :: string where
  "digit_chars = ''0123456789abcdef''"

text \<open>The digits of a natural number in base \<open>b\<close> (10 for \<^verbatim>\<open>str\<close>, 16 for the
  \<^verbatim>\<open>x\<close> format), most significant first.\<close>

fun nat_digits :: "nat \<Rightarrow> nat \<Rightarrow> string" where
  "nat_digits b n =
     (if b < 2 \<or> n < b then [digit_chars ! n]
      else nat_digits b (n div b) @ [digit_chars ! (n mod b)])"

declare nat_digits.simps [simp del]

definition str_int :: "int \<Rightarrow> string" where
  "str_int i = (if i < 0 then CHR ''-'' # nat_digits 10 (nat (- i)) else nat_digits 10 (nat i))"

text \<open>\<^verbatim>\<open>"{:02x}".format(v)\<close>: lower-case hexadecimal, zero-padded to two characters,
  the sign counting towards the width.\<close>

definition format_02x :: "int \<Rightarrow> string" where
  "format_02x v =
     (if v < 0 then CHR ''-'' # nat_digits 16 (nat (- v))
      else let h = nat_digits 16 (nat v) in if length h < 2 then CHR ''0'' # h else h)"

subsection \<open>Hexadecimal colours\<close>

definition digit_value :: "char \<Rightarrow> nat option" where
  "digit_value c =
     (let k = (of_char c :: nat) in
      if 48 \<le> k \<and> k \<le> 57 then Some (k - 48)
      else if 97 \<le> k \<and> k \<le> 102 then Some (k - 87)
      else if 65 \<le> k \<and> k \<le> 70 then Some (k - 55)
      else None)"

definition is_hex_digit :: "char \<Rightarrow> bool" where
  "is_hex_digit c = (digit_value c \<noteq> None)"

text \<open>
  \<^verbatim>\<open>int(s, 16)\<close>: surrounding whitespace is dropped, then an optional sign and an
  optional prefix \<^verbatim>\<open>0x\<close>, then hexadecimal digits, which single underscores may
  separate. \<open>None\<close> is the \<^verbatim>\<open>ValueError\<close>.
\<close>

fun digits_value :: "nat \<Rightarrow> bool \<Rightarrow> string \<Rightarrow> nat option" where
  "digits_value acc after_digit [] = (if after_digit then Some acc else None)"
| "digits_value acc after_digit (c # cs) =
     (if c = CHR ''_'' then (if after_digit then digits_value acc False cs else None)
      else case digit_value c of
             None \<Rightarrow> None
           | Some d \<Rightarrow> digits_value (16 * acc + d) True cs)"

definition int_base16 :: "string \<Rightarrow> int option" where
  "int_base16 s =
     (let s1 = strip s;
          neg = (s1 \<noteq> [] \<and> hd s1 = CHR ''-'');
          s2 = (if s1 \<noteq> [] \<and> (hd s1 = CHR ''+'' \<or> hd s1 = CHR ''-'') then tl s1 else s1);
          s3 = (if take 2 s2 = ''0x'' \<or> take 2 s2 = ''0X''
                then (if take 1 (drop 2 s2) = ''_'' then drop 3 s2 else drop 2 s2)
                else s2)
      in case digits_value 0 False s3 of
           None \<Rightarrow> None
         | Some n \<Rightarrow> Some (if neg then - int n else int n))"

definition int16 :: "string \<Rightarrow> error + int" where
  "int16 s = (case int_base16 s of None \<Rightarrow> Inl (InvalidLiteral s) | Some v \<Rightarrow> Inr v)"

text \<open>\<^verbatim>\<open>_hex_to_rgb\<close>: every leading \<^verbatim>\<open>#\<close> is stripped, an eight-digit string
  loses its alpha pair, and the three two-character slices are read in base 16.\<close>

definition hex_to_rgb :: "string \<Rightarrow> error + int \<times> int \<times> int" where
  "hex_to_rgb hex_color =
     (let h0 = dropWhile (\<lambda>c. c = CHR ''#'') hex_color;
          h = (if length h0 = 8 then take 6 h0 else h0)
      in bind_err (int16 (take 2 h)) (\<lambda>r.
         bind_err (int16 (take 2 (drop 2 h))) (\<lambda>g.
         bind_err (int16 (take 2 (drop 4 h))) (\<lambda>b. Inr (r, g, b)))))"

definition rgb_to_hex :: "int \<times> int \<times> int \<Rightarrow> string" where
  "rgb_to_hex rgb =
     (case rgb of (r, g, b) \<Rightarrow> CHR ''#'' # format_02x r @ format_02x g @ format_02x b)"

subsection \<open>The standard library's \<^verbatim>\<open>textwrap.wrap\<close>\<close>

text \<open>
  \<^verbatim>\<open>wrap_lines\<close> calls \<^verbatim>\<open>textwrap.wrap(text, width=width, break_long_words=False)\<close>.
  The wrapper belongs to the Python standard library, not to the repository; what follows is
  its algorithm with every other option at its default: tabs are expanded to multiples of
  eight columns, each whitespace character becomes a space, the text is cut into chunks by
  the word-separator pattern (runs of whitespace, runs of dashes between words, words cut
  after the hyphens of compound words), and the chunks are laid out greedily.
\<close>

definition is_ws :: "char \<Rightarrow> bool" where
  "is_ws c = (of_char c \<in> {9, 10, 11, 12, 13, 32 :: nat})"

fun expandtabs :: "nat \<Rightarrow> string \<Rightarrow> string" where
  "expandtabs col [] = []"
| "expandtabs col (c # cs) =
     (if c = CHR 0x09 then replicate (8 - col mod 8) CHR '' '' @ expandtabs (col + (8 - col mod 8)) cs
      else if c = CHR 0x0A \<or> c = CHR 0x0D then c # expandtabs 0 cs
      else c # expandtabs (col + 1) cs)"

definition munge_whitespace :: "string \<Rightarrow> string" where
  "munge_whitespace text = map (\<lambda>c. if is_ws c then CHR '' '' else c) (expandtabs 0 text)"

text \<open>The character classes of the pattern: \<^verbatim>\<open>\w\<close>, \<^verbatim>\<open>[^\d\W]\<close> and
  \<^verbatim>\<open>[\w!"'&.,?]\<close>.\<close>

definition is_word :: "char \<Rightarrow> bool" where
  "is_word c =
     (let k = (of_char c :: nat) in
      (48 \<le> k \<and> k \<le> 57) \<or> (65 \<le> k \<and> k \<le> 90) \<or> k = 95 \<or> (97 \<le> k \<and> k \<le> 122) \<or>
      k = 170 \<or> k = 178 \<or> k = 179 \<or> k = 181 \<or> k = 185 \<or> k = 186 \<or>
      (188 \<le> k \<and> k \<le> 190) \<or> (192 \<le> k \<and> k \<le> 214) \<or> (216 \<le> k \<and> k \<le> 246) \<or> 248 \<le> k)"

definition is_letter :: "char \<Rightarrow> bool" where
  "is_letter c = (is_word c \<and> \<not> (48 \<le> (of_char c :: nat) \<and> (of_char c :: nat) \<le> 57))"

definition is_word_punct :: "char \<Rightarrow> bool" where
  "is_word_punct c = (is_word c \<or> of_char c \<in> {33, 34, 38, 39, 44, 46, 63 :: nat})"

text \<open>The lookahead \<^verbatim>\<open>(?=-{2,}\w)\<close>: at least two dashes, then a word character.\<close>

definition emdash_ahead :: "string \<Rightarrow> bool" where
  "emdash_ahead rest =
     (let r = dropWhile (\<lambda>x. x = CHR ''-'') rest
      in 2 \<le> length (takeWhile (\<lambda>x. x = CHR ''-'') rest) \<and> r \<noteq> [] \<and> is_word (hd r))"

text \<open>After a dash: \<^verbatim>\<open>(?<=[^\d\W]{2}-)\<close> or \<^verbatim>\<open>(?<=[^\d\W]-[^\d\W]-)\<close> on the
  text read so far (given last character first), and \<^verbatim>\<open>(?=[^\d\W]-?[^\d\W])\<close>
  on the text that follows.\<close>

definition hyphen_behind :: "string \<Rightarrow> bool" where
  "hyphen_behind seen =
     ((case seen of a # b # _ \<Rightarrow> is_letter a \<and> is_letter b | _ \<Rightarrow> False) \<or>
      (case seen of a # h # b # _ \<Rightarrow> is_letter a \<and> h = CHR ''-'' \<and> is_letter b | _ \<Rightarrow> False))"

definition hyphen_ahead :: "string \<Rightarrow> bool" where
  "hyphen_ahead rest =
     ((case rest of a # h # b # _ \<Rightarrow> is_letter a \<and> h = CHR ''-'' \<and> is_letter b | _ \<Rightarrow> False) \<or>
      (case rest of a # b # _ \<Rightarrow> is_letter a \<and> is_letter b | _ \<Rightarrow> False))"

text \<open>
  The third alternative of the pattern, a word: after its first character the lazy
  repetition stops at the first position where a breakable hyphen follows (the hyphen is
  taken into the chunk), or whitespace or the end of the text, or dashes after a word
  character. \<open>word_scan seen rest\<close> is the number of further characters of the chunk.
\<close>

fun word_scan :: "string \<Rightarrow> string \<Rightarrow> nat" where
  "word_scan seen [] = 0"
| "word_scan seen (x # xs) =
     (if x = CHR ''-'' \<and> hyphen_behind seen \<and> hyphen_ahead xs then 1
      else if is_ws x then 0
      else if seen \<noteq> [] \<and> is_word_punct (hd seen) \<and> emdash_ahead (x # xs) then 0
      else Suc (word_scan (x # seen) xs))"

text \<open>The chunk that starts at the first character \<open>c\<close> of the remaining text: a run of
  whitespace, a run of dashes between words, or a word.\<close>

definition chunk_rest :: "string \<Rightarrow> char \<Rightarrow> string \<Rightarrow> nat" where
  "chunk_rest prev c cs =
     (if is_ws c then length (takeWhile is_ws cs)
      else if prev \<noteq> [] \<and> is_word_punct (hd prev) \<and> emdash_ahead (c # cs)
        then length (takeWhile (\<lambda>x. x = CHR ''-'') cs)
      else word_scan (c # prev) cs)"

fun split_from :: "string \<Rightarrow> string \<Rightarrow> string list" where
  "split_from prev [] = []"
| "split_from prev (c # cs) =
     (c # take (chunk_rest prev c cs) cs) #
       split_from (rev (take (chunk_rest prev c cs) cs) @ c # prev)
                  (drop (chunk_rest prev c cs) cs)"

definition split_chunks :: "string \<Rightarrow> string list" where
  "split_chunks text = split_from [] (munge_whitespace text)"

text \<open>The inner loop of \<^verbatim>\<open>_wrap_chunks\<close>: the number of chunks that fit on the
  current line.\<close>

fun fill_count :: "int \<Rightarrow> int \<Rightarrow> string list \<Rightarrow> nat" where
  "fill_count width cur_len [] = 0"
| "fill_count width cur_len (c # cs) =
     (if cur_len + int (length c) \<le> width
      then Suc (fill_count width (cur_len + int (length c)) cs) else 0)"

text \<open>
  One pass of the outer loop: a whitespace chunk at the start of a line is dropped unless
  no line exists yet; the chunks that fit are taken; a chunk wider than the line is taken
  whole when the line is still empty (\<^verbatim>\<open>_handle_long_word\<close> without
  \<^verbatim>\<open>break_long_words\<close>); a whitespace chunk at the end of the line is dropped. The
  result is the line's chunks and the chunks left.
\<close>

definition wrap_step :: "int \<Rightarrow> bool \<Rightarrow> string list \<Rightarrow> string list \<times> string list" where
  "wrap_step width has_lines chunks =
     (let chunks1 = (if strip (hd chunks) = [] \<and> has_lines then tl chunks else chunks);
          k = fill_count width 0 chunks1;
          cur_line = take k chunks1;
          chunks2 = drop k chunks1;
          long = (chunks2 \<noteq> [] \<and> width < int (length (hd chunks2)) \<and> cur_line = []);
          cur_line1 = (if long then [hd chunks2] else cur_line);
          chunks3 = (if long then tl chunks2 else chunks2);
          cur_line2 = (if cur_line1 \<noteq> [] \<and> strip (last cur_line1) = []
                       then butlast cur_line1 else cur_line1)
      in (cur_line2, chunks3))"

function wrap_chunks :: "int \<Rightarrow> string list \<Rightarrow> string list \<Rightarrow> string list" where
  "wrap_chunks width [] lines = lines"
| "wrap_chunks width (c # cs) lines =
     (case wrap_step width (lines \<noteq> []) (c # cs) of
        (cur_line, chunks') \<Rightarrow>
          wrap_chunks width chunks'
            (if cur_line \<noteq> [] then lines @ [concat cur_line] else lines))"
  by pat_completeness auto
termination
  by (relation "measure (\<lambda>(width, chunks, lines). length chunks)")
     (auto simp: wrap_step_def Let_def split: if_splits)

definition textwrap_wrap :: "string \<Rightarrow> int \<Rightarrow> error + string list" where
  "textwrap_wrap text width =
     (if width \<le> 0
      then Inl (ValueError (''invalid width '' @ str_int width @ '' (must be > 0)''))
      else Inr (wrap_chunks width (split_chunks text) []))"

subsection \<open>\<^verbatim>\<open>wrap_lines\<close>\<close>

definition wrap_lines :: "string \<Rightarrow> int \<Rightarrow> error + string list" where
  "wrap_lines text width =
     (if text = [] then Inr []
      else bind_err (textwrap_wrap text width) (\<lambda>wrapped.
             Inr (if wrapped \<noteq> [] then wrapped else [text])))"

subsection \<open>Colour resolution\<close>

text \<open>
  \<^verbatim>\<open>matplotlib.colors.to_hex(c, keep_alpha=False)\<close> is an external collaborator. Its
  behaviour on strings is modelled as follows: the string, or failing that its lower-case
  form when it is not a single character, is looked up in the table of names; the table
  \<open>cmap\<close> is a parameter and stands for every spelling that is not a hex literal.
  The outcome must be \<^verbatim>\<open>#\<close> followed by 6, 3, 8 or 4 hexadecimal digits; short forms
  double each digit, an alpha part is dropped, and the answer is in lower case. Anything
  else is rejected with a \<^verbatim>\<open>ValueError\<close>.
\<close>

definition to_hex :: "(string \<Rightarrow> string option) \<Rightarrow> string \<Rightarrow> error + string" where
  "to_hex cmap c =
     (let c1 = (case cmap c of
                  Some v \<Rightarrow> v
                | None \<Rightarrow>
                    (if length c \<noteq> 1
                     then (case cmap (map py_lower c) of Some v \<Rightarrow> v | None \<Rightarrow> c)
                     else c));
          ds = tl c1
      in if c1 \<noteq> [] \<and> hd c1 = CHR ''#'' \<and> list_all is_hex_digit ds then
           (if length ds = 6 then Inr (CHR ''#'' # map py_lower ds)
            else if length ds = 3
              then Inr (CHR ''#'' # map py_lower (concat (map (\<lambda>x. [x, x]) ds)))
            else if length ds = 8 then Inr (CHR ''#'' # map py_lower (take 6 ds))
            else if length ds = 4
              then Inr (CHR ''#'' # map py_lower (concat (map (\<lambda>x. [x, x]) (take 3 ds))))
            else Inl (InvalidRGBA c))
         else Inl (InvalidRGBA c))"

text \<open>The canonical form of a colour: \<^verbatim>\<open>#\<close> and six hexadecimal digits in
  lower case.\<close>

definition canonical_hex :: "string \<Rightarrow> bool" where
  "canonical_hex h =
     (case h of
        [] \<Rightarrow> False
      | c # ds \<Rightarrow> c = CHR ''#'' \<and> length ds = 6 \<and> list_all is_hex_digit ds \<and>
                  map py_lower ds = ds)"

text \<open>Python's \<^verbatim>\<open>round\<close> of a number to an integer: to the nearest, a tie to the
  even neighbour.\<close>

definition py_round :: "real \<Rightarrow> int" where
  "py_round x =
     (let f = \<lfloor>x\<rfloor>; d = x - of_int f
      in if d < 1 / 2 then f else if 1 / 2 < d then f + 1 else if even f then f else f + 1)"

definition interpolate_color :: "string \<Rightarrow> string \<Rightarrow> real \<Rightarrow> error + string" where
  "interpolate_color start_hex end_hex t =
     bind_err (hex_to_rgb start_hex) (\<lambda>(sr, sg, sb).
     bind_err (hex_to_rgb end_hex) (\<lambda>(er, eg, eb).
       Inr (rgb_to_hex
         (py_round (of_int sr + of_int (er - sr) * t),
          py_round (of_int sg + of_int (eg - sg) * t),
          py_round (of_int sb + of_int (eb - sb) * t)))))"

text \<open>A list comprehension whose elements may raise: the first exception wins.\<close>

fun collect :: "(error + 'a) list \<Rightarrow> error + 'a list" where
  "collect [] = Inr []"
| "collect (r # rs) = bind_err r (\<lambda>x. bind_err (collect rs) (\<lambda>xs. Inr (x # xs)))"

definition gradient_palette ::
  "(string \<Rightarrow> string option) \<Rightarrow> string \<Rightarrow> string \<Rightarrow> int \<Rightarrow> error + string list" where
  "gradient_palette cmap start_hex end_hex n =
     (if n \<le> 1 then Inr [start_hex]
      else bind_err (to_hex cmap start_hex) (\<lambda>s_hex.
           bind_err (to_hex cmap end_hex) (\<lambda>e_hex.
             collect (map (\<lambda>i. interpolate_color s_hex e_hex (real i / real_of_int (n - 1)))
                          [0 ..< nat n]))))"

definition quote :: string where
  "quote = [CHR 0x27]"

definition resolve_color ::
  "(string \<Rightarrow> string option) \<Rightarrow> string option \<Rightarrow> string \<Rightarrow> bool \<Rightarrow> error + string" where
  "resolve_color cmap color_value default_value allow_named_colors =
     (let v = (case color_value of None \<Rightarrow> default_value | Some c \<Rightarrow> c)
      in if \<not> allow_named_colors \<and> \<not> (v \<noteq> [] \<and> hd v = CHR ''#'')
         then Inl (ValueError (''Unsupported color '' @ quote @ v @ quote @
                     '' when allow_named_colors=False. Use hex colors like '' @
                     quote @ ''#88ccff'' @ quote @ ''.''))
         else (case to_hex cmap v of
                 Inr h \<Rightarrow> Inr h
               | Inl e \<Rightarrow>
                   Inl (ValueError (''Unsupported color '' @ quote @ v @ quote @
                     ''. Use hex or Matplotlib named colors. '' @
                     ''See get_matplotlib_named_colors().''))))"

subsection \<open>Deep merge of style documents\<close>

text \<open>
  A parsed style document is a tree: a table (a dictionary with string keys, in insertion
  order) or any other value. \<^verbatim>\<open>_recursive_update\<close> walks the items of the override;
  when the override's value is a table and the key is in the base, it descends into the
  base's value whatever that is. Below a base value that is not a table each step of the
  loop (the membership test, the subscript or the item assignment) raises
  \<^verbatim>\<open>TypeError\<close>, and a loop over an empty override returns that value untouched.
\<close>

datatype 'a toml = Leaf 'a | Table "(string \<times> 'a toml) list"

fun dict_set :: "(string \<times> 'v) list \<Rightarrow> string \<Rightarrow> 'v \<Rightarrow> (string \<times> 'v) list" where
  "dict_set [] k v = [(k, v)]"
| "dict_set ((k', v') # kvs) k v =
     (if k' = k then (k, v) # kvs else (k', v') # dict_set kvs k v)"

fun recursive_update :: "'a toml \<Rightarrow> (string \<times> 'a toml) list \<Rightarrow> error + 'a toml" where
  "recursive_update dflt [] = Inr dflt"
| "recursive_update (Leaf x) ((key, val) # items) = Inl TypeError"
| "recursive_update (Table d) ((key, Table sub) # items) =
     (case map_of d key of
        Some old \<Rightarrow>
          bind_err (recursive_update old sub) (\<lambda>merged.
            recursive_update (Table (dict_set d key merged)) items)
      | None \<Rightarrow> recursive_update (Table (dict_set d key (Table sub))) items)"
| "recursive_update (Table d) ((key, Leaf x) # items) =
     recursive_update (Table (dict_set d key (Leaf x))) items"

subsection \<open>The diagram: node processing and vertical layout\<close>

text \<open>
  A cohort node is a dictionary; an optional key that is absent is \<open>None\<close>. Of the style
  document only the entries that node processing and the vertical layout read are kept.
\<close>

record node =
  N :: int
  heading :: "string option"
  description :: "string option"
  exclusion_description :: "string option"
  color :: "string option"
  color_name :: "string option"
  exclusion_color :: "string option"
  exclusion_color_name :: "string option"

record layout_section =
  main_title_width :: int
  main_text_width :: int
  exclusion_text_width :: int
  base_gap :: real
  top_margin :: real
  bottom_margin :: real

record box_geometry_section =
  padding :: real
  title_line_height :: real
  body_line_height :: real
  title_body_gap :: real
  min_main_height :: real
  min_exclusion_height :: real
  clearance :: real

record colors_section =
  allow_named_colors :: bool
  main_start :: string
  main_end :: string
  exclusion_start :: string
  exclusion_end :: string

record style_config =
  layout :: layout_section
  box_geometry :: box_geometry_section
  colors :: colors_section

record kwargs =
  main_palette :: "string list option"
  exclusion_palette :: "string list option"

record processed_node =
  n_curr :: int
  excl_n :: int
  title_lines :: "string list"
  body_lines :: "string list"
  excl_lines :: "string list"
  color_hex :: string
  excl_color :: string
  main_h :: real
  excl_h :: real

text \<open>The hard-coded fallback of \<^verbatim>\<open>load_style_config\<close> (the white style).\<close>

definition fallback_config :: style_config where
  "fallback_config =
     \<lparr> layout = \<lparr> main_title_width = 26, main_text_width = 34, exclusion_text_width = 30,
                   base_gap = 0.8, top_margin = 0.8, bottom_margin = 0.8 \<rparr>,
       box_geometry = \<lparr> padding = 0.52, title_line_height = 0.42, body_line_height = 0.33,
                         title_body_gap = 0.16, min_main_height = 1.6,
                         min_exclusion_height = 1.2, clearance = 0.2 \<rparr>,
       colors = \<lparr> allow_named_colors = True, main_start = ''#ffffff'', main_end = ''#ffffff'',
                   exclusion_start = ''#ffffff'', exclusion_end = ''#ffffff'' \<rparr> \<rparr>"

text \<open>\<^verbatim>\<open>kwargs.get(key) or gradient_palette(...)\<close>: an override that is absent or
  empty is falsy, and only then is the gradient computed.\<close>

definition palette_or :: "string list option \<Rightarrow> (error + string list) \<Rightarrow> error + string list" where
  "palette_or override gradient =
     (case override of
        None \<Rightarrow> gradient
      | Some p \<Rightarrow> if p \<noteq> [] then Inr p else gradient)"

definition main_palette_of ::
  "(string \<Rightarrow> string option) \<Rightarrow> style_config \<Rightarrow> kwargs \<Rightarrow> node list \<Rightarrow> error + string list" where
  "main_palette_of cmap cfg kw data =
     palette_or (main_palette kw)
       (gradient_palette cmap (main_start (colors cfg)) (main_end (colors cfg)) (int (length data)))"

definition excl_palette_of ::
  "(string \<Rightarrow> string option) \<Rightarrow> style_config \<Rightarrow> kwargs \<Rightarrow> node list \<Rightarrow> error + string list" where
  "excl_palette_of cmap cfg kw data =
     palette_or (exclusion_palette kw)
       (gradient_palette cmap (exclusion_start (colors cfg)) (exclusion_end (colors cfg))
          (int (length data)))"

definition count_line :: "int \<Rightarrow> string" where
  "count_line k = ''(n = '' @ str_int k @ '')''"

definition ordering_message :: "nat \<Rightarrow> int \<Rightarrow> string" where
  "ordering_message i n =
     ''Node '' @ str_int (int i) @ '' has more patients ('' @ str_int n @
     '') than previous step.''"

definition palette_entry :: "string list \<Rightarrow> nat \<Rightarrow> error + string" where
  "palette_entry palette i = (if i < length palette then Inr (palette ! i) else Inl IndexError)"

text \<open>The body of the loop over \<^verbatim>\<open>enumerate(data)\<close>, for an index \<open>i\<close> inside the
  list.\<close>

definition process_node ::
  "(string \<Rightarrow> string option) \<Rightarrow> style_config \<Rightarrow> string list \<Rightarrow> string list \<Rightarrow>
     node list \<Rightarrow> nat \<Rightarrow> error + processed_node" where
  "process_node cmap cfg main_pal excl_pal data i =
     (let nd = data ! i;
          lay = layout cfg;
          geom = box_geometry cfg;
          n_cur = N nd;
          n_prev = (if 0 < i then N (data ! (i - 1)) else n_cur);
          n_excluded = n_prev - n_cur
      in if n_excluded < 0 then Inl (ValueError (ordering_message i n_cur))
      else
        let h0 = strip (case heading nd of None \<Rightarrow> [] | Some h \<Rightarrow> h);
            head = (if h0 \<noteq> [] then h0 else ''Step '' @ str_int (int i + 1));
            desc = strip (case description nd of None \<Rightarrow> [] | Some d \<Rightarrow> d);
            excl_desc = strip (case exclusion_description nd of
                                 None \<Rightarrow> ''Excluded'' | Some d \<Rightarrow> d)
        in
        bind_err (wrap_lines head (main_title_width lay)) (\<lambda>t_lines.
        bind_err (if desc \<noteq> [] then wrap_lines desc (main_text_width lay) else Inr []) (\<lambda>d_lines.
          let b_lines = count_line n_cur # (if desc \<noteq> [] then [] # d_lines else []);
              main_h_calc = padding geom
                + title_line_height geom * real (max 1 (length t_lines))
                + title_body_gap geom
                + body_line_height geom * real (max 1 (length b_lines));
              m_h = max (min_main_height geom) main_h_calc
          in
          bind_err (wrap_lines excl_desc (exclusion_text_width lay)) (\<lambda>wrapped.
            let e_lines = wrapped @ [count_line n_excluded];
                excl_h_calc = padding geom
                  + body_line_height geom * real (max 1 (length e_lines));
                e_h = max (min_exclusion_height geom) excl_h_calc
            in
            bind_err (palette_entry main_pal i) (\<lambda>main_default.
            bind_err (palette_entry excl_pal i) (\<lambda>excl_default.
              let main_color_raw =
                    (case color nd of
                       Some c \<Rightarrow> c
                     | None \<Rightarrow> (case color_name nd of Some c \<Rightarrow> c | None \<Rightarrow> main_default));
                  excl_color_raw =
                    (case exclusion_color nd of
                       Some c \<Rightarrow> c
                     | None \<Rightarrow> (case exclusion_color_name nd of
                                   Some c \<Rightarrow> c | None \<Rightarrow> excl_default))
              in
              bind_err (resolve_color cmap (Some main_color_raw) main_default
                          (allow_named_colors (colors cfg))) (\<lambda>col.
              bind_err (resolve_color cmap (Some excl_color_raw) excl_default
                          (allow_named_colors (colors cfg))) (\<lambda>ecol.
                Inr \<lparr> n_curr = n_cur, excl_n = n_excluded, title_lines = t_lines,
                      body_lines = b_lines, excl_lines = e_lines, color_hex = col,
                      excl_color = ecol, main_h = m_h, excl_h = e_h \<rparr>))))))))"

fun process_loop ::
  "(nat \<Rightarrow> error + processed_node) \<Rightarrow> nat list \<Rightarrow> processed_node list \<Rightarrow>
     error + processed_node list" where
  "process_loop f [] processed = Inr processed"
| "process_loop f (i # is) processed =
     bind_err (f i) (\<lambda>p. process_loop f is (processed @ [p]))"

definition process_nodes ::
  "(string \<Rightarrow> string option) \<Rightarrow> style_config \<Rightarrow> string list \<Rightarrow> string list \<Rightarrow>
     node list \<Rightarrow> error + processed_node list" where
  "process_nodes cmap cfg main_pal excl_pal data =
     process_loop (process_node cmap cfg main_pal excl_pal data) [0 ..< length data] []"

text \<open>Geometry: the gap of every transition, then the centres from top to bottom, then
  the height of the canvas.\<close>

definition transition_gaps :: "style_config \<Rightarrow> processed_node list \<Rightarrow> real list" where
  "transition_gaps cfg processed =
     map (\<lambda>i. let nd = processed ! i;
                   req_gap = (if 0 < excl_n nd
                              then excl_h nd + 2 * clearance (box_geometry cfg) else 0)
               in max (base_gap (layout cfg)) req_gap)
         [1 ..< length processed]"

definition centers_y :: "style_config \<Rightarrow> processed_node list \<Rightarrow> real list" where
  "centers_y cfg processed =
     fold (\<lambda>i centers.
             centers @ [last centers + main_h (processed ! (i - 1)) / 2
                        + transition_gaps cfg processed ! (i - 1)
                        + main_h (processed ! i) / 2])
          [1 ..< length processed]
          [top_margin (layout cfg) + main_h (processed ! 0) / 2]"

definition total_height :: "style_config \<Rightarrow> processed_node list \<Rightarrow> real" where
  "total_height cfg processed =
     last (centers_y cfg processed) + main_h (last processed) / 2 + bottom_margin (layout cfg)"

text \<open>
  \<^verbatim>\<open>plot_cohort_flow_diagram\<close> up to the start of the drawing, for a style document
  that is already loaded: the processed nodes, the centres and the height of the canvas.
\<close>

definition plot_cohort_flow_diagram ::
  "(string \<Rightarrow> string option) \<Rightarrow> style_config \<Rightarrow> kwargs \<Rightarrow> node list \<Rightarrow>
     error + processed_node list \<times> real list \<times> real" where
  "plot_cohort_flow_diagram cmap cfg kw data =
     (if data = [] then Inl (ValueError ''data must contain at least one cohort node.'')
      else
        bind_err (main_palette_of cmap cfg kw data) (\<lambda>main_pal.
        bind_err (excl_palette_of cmap cfg kw data) (\<lambda>excl_pal.
        bind_err (process_nodes cmap cfg main_pal excl_pal data) (\<lambda>processed.
          Inr (processed, centers_y cfg processed, total_height cfg processed)))))"

text \<open>Inputs for concrete runs: a node with the required key only, a call without
  keyword overrides, and the three-step cohort of \<^verbatim>\<open>tests/test_cfd.py\<close>.\<close>

definition plain_node :: "int \<Rightarrow> node" where
  "plain_node k =
     \<lparr> N = k, heading = None, description = None, exclusion_description = None,
       color = None, color_name = None, exclusion_color = None,
       exclusion_color_name = None \<rparr>"

definition no_kwargs :: kwargs where
  "no_kwargs = \<lparr> main_palette = None, exclusion_palette = None \<rparr>"

definition sample_data :: "node list" where
  "sample_data =
     [(plain_node 100)\<lparr>heading := Some ''Registered''\<rparr>,
      (plain_node 80)\<lparr>heading := Some ''Screened'',
                       exclusion_description := Some ''Not eligible''\<rparr>,
      (plain_node 60)\<lparr>heading := Some ''Analysed'',
                       exclusion_description := Some ''Withdrew''\<rparr>]"

section \<open>Properties\<close>

subsection \<open>Hexadecimal round trip\<close>

lemma digit_value_char:
  "\<forall>c. case digit_value c of
          None \<Rightarrow> True
        | Some v \<Rightarrow> v < 16 \<and> digit_chars ! v = py_lower c \<and> \<not> py_isspace c \<and>
                   c \<noteq> CHR ''_'' \<and> c \<noteq> CHR ''+'' \<and> c \<noteq> CHR ''-''"
  by code_simp

lemma digit_valueD:
  assumes "digit_value c = Some v"
  shows "v < 16" "digit_chars ! v = py_lower c" "\<not> py_isspace c"
    "c \<noteq> CHR ''_''" "c \<noteq> CHR ''+''" "c \<noteq> CHR ''-''"
  using digit_value_char [rule_format, of c] assms by simp_all

lemma digit_value_x: "digit_value (CHR ''x'') = None" "digit_value (CHR ''X'') = None"
  by code_simp+

lemma int_base16_pair:
  assumes a: "digit_value a = Some x" and b: "digit_value b = Some y"
  shows "int_base16 [a, b] = Some (int (16 * x + y))"
proof -
  have s: "strip [a, b] = [a, b]"
    using digit_valueD(3) [OF a] digit_valueD(3) [OF b] by (simp add: strip_def)
  have nx: "b \<noteq> CHR ''x''" "b \<noteq> CHR ''X''"
    using b digit_value_x by auto
  show ?thesis
    using digit_valueD(4-6) [OF a] digit_valueD(4) [OF b] nx a b
    by (simp add: int_base16_def s)
qed

lemma format_02x_nat:
  "format_02x (int n) = (let h = nat_digits 16 n in if length h < 2 then CHR ''0'' # h else h)"
  by (simp add: format_02x_def)

lemma nat_digits_pair:
  assumes "x < 16" "y < 16"
  shows "(let h = nat_digits 16 (16 * x + y) in if length h < 2 then CHR ''0'' # h else h)
         = [digit_chars ! x, digit_chars ! y]"
proof (cases "x = 0")
  case True
  then show ?thesis using assms
    by (simp add: nat_digits.simps [of 16 y] digit_chars_def)
next
  case False
  then have "\<not> 16 * x + y < 16" by simp
  moreover have "(16 * x + y) div 16 = x" "(16 * x + y) mod 16 = y" using assms by simp_all
  ultimately show ?thesis using assms
    by (simp add: nat_digits.simps [of 16 "16 * x + y"] nat_digits.simps [of 16 x])
qed

lemma format_02x_pair:
  assumes "x < 16" "y < 16"
  shows "format_02x (int (16 * x + y)) = [digit_chars ! x, digit_chars ! y]"
  unfolding format_02x_nat using nat_digits_pair [OF assms] .

lemma roundtrip_pair:
  assumes "is_hex_digit a" "is_hex_digit b"
  shows "\<exists>v. int_base16 [a, b] = Some v \<and> 0 \<le> v \<and> v \<le> 255 \<and>
             format_02x v = [py_lower a, py_lower b]"
proof -
  from assms obtain x y where xy: "digit_value a = Some x" "digit_value b = Some y"
    by (auto simp: is_hex_digit_def)
  have "x < 16" "y < 16" using digit_valueD(1) xy by blast+
  then have "int (16 * x + y) \<le> 255" by simp
  then show ?thesis
    using int_base16_pair [OF xy] format_02x_pair [of x y]
      digit_valueD(1,2) [OF xy(1)] digit_valueD(1,2) [OF xy(2)]
    by simp
qed

lemma hex_digit_not_hash: "is_hex_digit c \<Longrightarrow> c \<noteq> CHR ''#''"
  by (auto simp: is_hex_digit_def digit_value_def)

lemma six_digits_channels:
  assumes "length ds = 6" "list_all is_hex_digit ds"
  shows "\<exists>r g b. hex_to_rgb (CHR ''#'' # ds) = Inr (r, g, b) \<and>
           0 \<le> r \<and> r \<le> 255 \<and> 0 \<le> g \<and> g \<le> 255 \<and> 0 \<le> b \<and> b \<le> 255 \<and>
           rgb_to_hex (r, g, b) = CHR ''#'' # map py_lower ds"
proof -
  from assms(1) obtain a b c d e f where ds: "ds = [a, b, c, d, e, f]"
    by (auto simp: length_Suc_conv eval_nat_numeral)
  from assms(2) have h: "is_hex_digit a" "is_hex_digit b" "is_hex_digit c"
    "is_hex_digit d" "is_hex_digit e" "is_hex_digit f"
    by (simp_all add: ds)
  obtain r where r: "int_base16 [a, b] = Some r" "0 \<le> r" "r \<le> 255"
      "format_02x r = [py_lower a, py_lower b]"
    using roundtrip_pair [OF h(1,2)] by blast
  obtain g where g: "int_base16 [c, d] = Some g" "0 \<le> g" "g \<le> 255"
      "format_02x g = [py_lower c, py_lower d]"
    using roundtrip_pair [OF h(3,4)] by blast
  obtain bl where bl: "int_base16 [e, f] = Some bl" "0 \<le> bl" "bl \<le> 255"
      "format_02x bl = [py_lower e, py_lower f]"
    using roundtrip_pair [OF h(5,6)] by blast
  have "hex_to_rgb (CHR ''#'' # ds) = Inr (r, g, bl)"
    using hex_digit_not_hash [OF h(1)] r g bl
    by (simp add: hex_to_rgb_def ds int16_def bind_err_def)
  then show ?thesis using r g bl by (simp add: rgb_to_hex_def ds)
qed

text \<open>
  C7, as stated, fails on upper-case digits: \<^verbatim>\<open>_rgb_to_hex\<close> always prints lower case.
  For \<^verbatim>\<open>#AABBCC\<close> the round trip gives \<^verbatim>\<open>#aabbcc\<close>.
\<close>

theorem hex_roundtrip_uppercase_counterexample:
  "map_sum id rgb_to_hex (hex_to_rgb ''#AABBCC'') = Inr ''#aabbcc'' \<and>
   map_sum id rgb_to_hex (hex_to_rgb ''#AABBCC'') \<noteq> Inr ''#AABBCC''"
  by code_simp

text \<open>
  C7, amended: for a string \<open>h\<close> made of \<^verbatim>\<open>#\<close> and six hexadecimal digits,
  \<^verbatim>\<open>_hex_to_rgb\<close> succeeds and \<^verbatim>\<open>_rgb_to_hex\<close> of its result is \<open>h\<close> with the
  digits in lower case; so the round trip returns \<open>h\<close> unchanged exactly when \<open>h\<close> has
  no upper-case digit.
\<close>

theorem hex_roundtrip_lowercases:
  assumes "length ds = 6" and "list_all is_hex_digit ds"
  shows "map_sum id rgb_to_hex (hex_to_rgb (CHR ''#'' # ds)) = Inr (CHR ''#'' # map py_lower ds)"
  using six_digits_channels [OF assms] by auto

theorem hex_roundtrip_lowercases_witness:
  "length ''1a2b3c'' = 6 \<and> list_all is_hex_digit ''1a2b3c'' \<and>
   map_sum id rgb_to_hex (hex_to_rgb ''#1a2b3c'') = Inr ''#1a2b3c''"
proof -
  have h: "list_all is_hex_digit ''1a2b3c''" by code_simp
  have l: "map py_lower ''1a2b3c'' = ''1a2b3c''" by code_simp
  show ?thesis using hex_roundtrip_lowercases [of "''1a2b3c''", OF _ h] h l by simp
qed

subsection \<open>Palette overrides\<close>



subsection \<open>Colour resolution\<close>

lemma digit_chars_lower: "list_all (\<lambda>d. is_hex_digit d \<and> py_lower d = d) digit_chars"
  by code_simp

lemma py_lower_hex_digit:
  assumes "is_hex_digit c"
  shows "is_hex_digit (py_lower c) \<and> py_lower (py_lower c) = py_lower c"
proof -
  from assms obtain v where v: "digit_value c = Some v" by (auto simp: is_hex_digit_def)
  have "v < length digit_chars" using digit_valueD(1) [OF v] by (simp add: digit_chars_def)
  then have "digit_chars ! v \<in> set digit_chars" by simp
  then have "py_lower c \<in> set digit_chars" using digit_valueD(2) [OF v] by simp
  then show ?thesis using digit_chars_lower by (simp add: list_all_iff)
qed

lemma lower_digits:
  "list_all is_hex_digit ds \<Longrightarrow>
     list_all is_hex_digit (map py_lower ds) \<and> map py_lower (map py_lower ds) = map py_lower ds"
  using py_lower_hex_digit by (induction ds) auto

lemma canonical_hexI:
  "length ds = 6 \<Longrightarrow> list_all is_hex_digit ds \<Longrightarrow> canonical_hex (CHR ''#'' # map py_lower ds)"
  using lower_digits [of ds] by (simp add: canonical_hex_def)

lemma doubled_digits:
  "list_all is_hex_digit ds \<Longrightarrow> list_all is_hex_digit (concat (map (\<lambda>x. [x, x]) ds)) \<and>
     length (concat (map (\<lambda>x. [x, x]) ds)) = 2 * length ds"
  by (induction ds) auto

lemma to_hex_canonical:
  assumes "to_hex cmap c = Inr h"
  shows "canonical_hex h"
proof -
  define c1 where "c1 = (case cmap c of
                  Some v \<Rightarrow> v
                | None \<Rightarrow>
                    (if length c \<noteq> 1
                     then (case cmap (map py_lower c) of Some v \<Rightarrow> v | None \<Rightarrow> c)
                     else c))"
  define ds where "ds = tl c1"
  have hex: "list_all is_hex_digit ds"
    using assms unfolding to_hex_def c1_def [symmetric] Let_def ds_def [symmetric]
    by (auto split: if_splits)
  have t3: "list_all is_hex_digit (take 3 ds)" "list_all is_hex_digit (take 6 ds)"
    using hex by (auto simp: list_all_iff dest: in_set_takeD)
  have cases: "(length ds = 6 \<and> h = CHR ''#'' # map py_lower ds) \<or>
      (length ds = 3 \<and> h = CHR ''#'' # map py_lower (concat (map (\<lambda>x. [x, x]) ds))) \<or>
      (length ds = 8 \<and> h = CHR ''#'' # map py_lower (take 6 ds)) \<or>
      (length ds = 4 \<and> h = CHR ''#'' # map py_lower (concat (map (\<lambda>x. [x, x]) (take 3 ds))))"
    using assms unfolding to_hex_def c1_def [symmetric] Let_def ds_def [symmetric]
    by (auto split: if_splits)
  then show ?thesis
  proof (elim disjE conjE)
    assume "length ds = 6" "h = CHR ''#'' # map py_lower ds"
    then show ?thesis using canonical_hexI [OF _ hex] by simp
  next
    assume a: "length ds = 3" "h = CHR ''#'' # map py_lower (concat (map (\<lambda>x. [x, x]) ds))"
    show ?thesis unfolding a(2)
      by (rule canonical_hexI) (use doubled_digits [OF hex] a(1) in simp_all)
  next
    assume a: "length ds = 8" "h = CHR ''#'' # map py_lower (take 6 ds)"
    show ?thesis unfolding a(2)
      by (rule canonical_hexI) (use t3 a(1) in simp_all)
  next
    assume a: "length ds = 4"
      "h = CHR ''#'' # map py_lower (concat (map (\<lambda>x. [x, x]) (take 3 ds)))"
    show ?thesis unfolding a(2)
      by (rule canonical_hexI) (use doubled_digits [OF t3(1)] a(1) in simp_all)
  qed
qed

lemma to_hex_literal:
  assumes "cmap (CHR ''#'' # ds) = None" "map py_lower (CHR ''#'' # ds) = CHR ''#'' # ds"
    "length ds = 6" "list_all is_hex_digit ds"
  shows "to_hex cmap (CHR ''#'' # ds) = Inr (CHR ''#'' # map py_lower ds)"
  using assms by (simp add: to_hex_def)

lemma resolve_color_canonical:
  "resolve_color cmap cv d a = Inr h \<Longrightarrow> canonical_hex h"
  by (auto simp: resolve_color_def Let_def to_hex_canonical split: if_splits sum.splits)

text \<open>
  C6: \<^verbatim>\<open>resolve_color\<close> puts the default in the place of a value that is
  \<^verbatim>\<open>None\<close>; with named colours disallowed, a value that does not start with
  \<^verbatim>\<open>#\<close> is refused with a message that quotes it; otherwise the result is the canonical
  hex form of the value, and a value that the colour parser rejects is refused with a message
  that points to \<^verbatim>\<open>get_matplotlib_named_colors()\<close>. The three examples of the
  specification follow, for a table of names that has no entry for \<^verbatim>\<open>#aabbcc\<close> and
  maps \<^verbatim>\<open>red\<close> to \<^verbatim>\<open>#FF0000\<close>.
\<close>

theorem resolve_color_behaviour:
  "resolve_color cmap None d a = resolve_color cmap (Some d) d a \<and>
   (\<not> a \<and> \<not> (v \<noteq> [] \<and> hd v = CHR ''#'') \<longrightarrow>
      resolve_color cmap (Some v) d a =
        Inl (ValueError (''Unsupported color '' @ [CHR 0x27] @ v @ [CHR 0x27] @
               '' when allow_named_colors=False. Use hex colors like '' @
               [CHR 0x27] @ ''#88ccff'' @ [CHR 0x27] @ ''.''))) \<and>
   ((a \<or> (v \<noteq> [] \<and> hd v = CHR ''#'')) \<longrightarrow>
      (\<forall>h. to_hex cmap v = Inr h \<longrightarrow>
           resolve_color cmap (Some v) d a = Inr h \<and> canonical_hex h) \<and>
      (\<forall>e. to_hex cmap v = Inl e \<longrightarrow>
           resolve_color cmap (Some v) d a =
             Inl (ValueError (''Unsupported color '' @ [CHR 0x27] @ v @ [CHR 0x27] @
                    ''. Use hex or Matplotlib named colors. '' @
                    ''See get_matplotlib_named_colors().'')))) \<and>
   (cmap ''#aabbcc'' = None \<longrightarrow> resolve_color cmap None ''#aabbcc'' True = Inr ''#aabbcc'') \<and>
   (cmap ''red'' = Some ''#FF0000'' \<longrightarrow>
      resolve_color cmap (Some ''red'') ''#000000'' True = Inr ''#ff0000'') \<and>
   resolve_color cmap (Some ''red'') ''#000000'' False =
     Inl (ValueError (''Unsupported color '' @ [CHR 0x27] @ ''red'' @ [CHR 0x27] @
            '' when allow_named_colors=False. Use hex colors like '' @
            [CHR 0x27] @ ''#88ccff'' @ [CHR 0x27] @ ''.''))"
proof -
  have lit: "list_all is_hex_digit ''aabbcc''" "list_all is_hex_digit ''FF0000''"
    "map py_lower ''#aabbcc'' = ''#aabbcc''" "map py_lower ''aabbcc'' = ''aabbcc''"
    "map py_lower ''FF0000'' = ''ff0000''"
    by code_simp+
  have ex1: "cmap ''#aabbcc'' = None \<Longrightarrow> to_hex cmap ''#aabbcc'' = Inr ''#aabbcc''"
    using to_hex_literal [of cmap "''aabbcc''"] lit by simp
  have ex2: "cmap ''red'' = Some ''#FF0000'' \<Longrightarrow> to_hex cmap ''red'' = Inr ''#ff0000''"
    using lit by (simp add: to_hex_def)
  show ?thesis
    using ex1 ex2
    by (auto simp: resolve_color_def Let_def quote_def to_hex_canonical split: sum.splits)
qed

theorem resolve_color_behaviour_witness:
  "resolve_color [''red'' \<mapsto> ''#FF0000''] None ''#aabbcc'' True = Inr ''#aabbcc'' \<and>
   resolve_color [''red'' \<mapsto> ''#FF0000''] (Some ''red'') ''#000000'' True = Inr ''#ff0000'' \<and>
   to_hex [''red'' \<mapsto> ''#FF0000''] ''nope'' = Inl (InvalidRGBA ''nope'') \<and>
   resolve_color [''red'' \<mapsto> ''#FF0000''] (Some ''nope'') ''#000000'' True =
     Inl (ValueError (''Unsupported color '' @ [CHR 0x27] @ ''nope'' @ [CHR 0x27] @
            ''. Use hex or Matplotlib named colors. '' @
            ''See get_matplotlib_named_colors().'')) \<and>
   resolve_color [''red'' \<mapsto> ''#FF0000''] (Some ''nope'') ''#000000'' False =
     Inl (ValueError (''Unsupported color '' @ [CHR 0x27] @ ''nope'' @ [CHR 0x27] @
            '' when allow_named_colors=False. Use hex colors like '' @
            [CHR 0x27] @ ''#88ccff'' @ [CHR 0x27] @ ''.''))"
proof -
  have t: "to_hex [''red'' \<mapsto> ''#FF0000''] ''nope'' = Inl (InvalidRGBA ''nope'')"
    by (simp add: to_hex_def)
  show ?thesis
    using t
      resolve_color_behaviour [of "[''red'' \<mapsto> ''#FF0000'']" "''#000000''" True "''nope''"]
      resolve_color_behaviour [of "[''red'' \<mapsto> ''#FF0000'']" "''#000000''" False "''nope''"]
    by simp
qed

subsection \<open>Vertical layout\<close>

lemma centers_fold:
  fixes g :: "nat \<Rightarrow> real \<Rightarrow> real"
  defines "F \<equiv> (\<lambda>i cs. cs @ [g i (last cs)])"
  shows "length (fold F [1 ..< Suc n] [c0]) = Suc n \<and>
         fold F [1 ..< Suc n] [c0] ! 0 = c0 \<and>
         (\<forall>i. 1 \<le> i \<and> i \<le> n \<longrightarrow>
              fold F [1 ..< Suc n] [c0] ! i = g i (fold F [1 ..< Suc n] [c0] ! (i - 1)))"
proof (induction n)
  case 0
  then show ?case by simp
next
  case (Suc n)
  define cs where "cs = fold F [1 ..< Suc n] [c0]"
  have len: "length cs = Suc n" and c0: "cs ! 0 = c0"
    and step: "\<And>i. 1 \<le> i \<Longrightarrow> i \<le> n \<Longrightarrow> cs ! i = g i (cs ! (i - 1))"
    using Suc.IH by (simp_all add: cs_def)
  have ne: "cs \<noteq> []" using len by auto
  have "[1 ..< Suc (Suc n)] = [1 ..< Suc n] @ [Suc n]" by simp
  then have "fold F [1 ..< Suc (Suc n)] [c0] = F (Suc n) cs"
    unfolding cs_def by (simp del: upt_Suc)
  then have unfold: "fold F [1 ..< Suc (Suc n)] [c0] = cs @ [g (Suc n) (cs ! n)]"
    using len ne by (simp add: F_def last_conv_nth)
  have "(cs @ [g (Suc n) (cs ! n)]) ! i = g i ((cs @ [g (Suc n) (cs ! n)]) ! (i - 1))"
    if "1 \<le> i" "i \<le> Suc n" for i
  proof (cases "i = Suc n")
    case True
    then show ?thesis using len by (simp add: nth_append)
  next
    case False
    with that have le: "i \<le> n" by simp
    then have "i < length cs" "i - 1 < length cs" using len by simp_all
    then show ?thesis using that(1) le step [of i] by (simp add: nth_append)
  qed
  then show ?case
    unfolding unfold using len c0 by (simp add: nth_append)
qed

lemma centers_y_nth:
  assumes "processed \<noteq> []"
  shows "length (centers_y cfg processed) = length processed"
    and "centers_y cfg processed ! 0 = top_margin (layout cfg) + main_h (processed ! 0) / 2"
    and "1 \<le> i \<Longrightarrow> i < length processed \<Longrightarrow>
           centers_y cfg processed ! i =
             centers_y cfg processed ! (i - 1) + main_h (processed ! (i - 1)) / 2
             + transition_gaps cfg processed ! (i - 1) + main_h (processed ! i) / 2"
proof -
  obtain n where n: "length processed = Suc n"
    using assms by (cases processed) auto
  note f = centers_fold [where n = n
      and g = "\<lambda>i c. c + main_h (processed ! (i - 1)) / 2
               + transition_gaps cfg processed ! (i - 1) + main_h (processed ! i) / 2"
      and ?c0.0 = "top_margin (layout cfg) + main_h (processed ! 0) / 2"]
  show "length (centers_y cfg processed) = length processed"
    using f by (simp add: centers_y_def n)
  show "centers_y cfg processed ! 0 = top_margin (layout cfg) + main_h (processed ! 0) / 2"
    using f by (simp add: centers_y_def n)
  show "centers_y cfg processed ! i =
             centers_y cfg processed ! (i - 1) + main_h (processed ! (i - 1)) / 2
             + transition_gaps cfg processed ! (i - 1) + main_h (processed ! i) / 2"
    if "1 \<le> i" "i < length processed"
  proof -
    from that have "i \<le> n" by (simp add: n)
    with f that(1) show ?thesis by (simp add: centers_y_def n)
  qed
qed

lemma transition_gaps_nth:
  assumes "1 \<le> i" "i < length processed"
  shows "transition_gaps cfg processed ! (i - 1) =
           max (base_gap (layout cfg))
               (if 0 < excl_n (processed ! i)
                then excl_h (processed ! i) + 2 * clearance (box_geometry cfg) else 0)"
proof -
  have "i - 1 < length [1 ..< length processed]" using assms by simp
  moreover have "[1 ..< length processed] ! (i - 1) = i" using assms by simp
  ultimately show ?thesis by (simp add: transition_gaps_def Let_def del: upt_Suc)
qed

text \<open>
  C3: for a non-empty list of processed nodes, the gap of the transition into node \<open>i\<close>
  (entry \<open>i - 1\<close> of \<^verbatim>\<open>transition_gaps\<close>) is the larger of the base gap and, when the
  node excludes somebody, the height of its exclusion box plus twice the clearance; the first
  centre is the top margin plus half the first box; every other centre is the previous centre
  plus half the previous box, the gap and half the box itself; and the height of the canvas
  is the last centre plus half the last box plus the bottom margin.
\<close>

theorem layout_formulas:
  assumes "processed \<noteq> []"
  shows "length (centers_y cfg processed) = length processed \<and>
         centers_y cfg processed ! 0 = top_margin (layout cfg) + main_h (processed ! 0) / 2 \<and>
         (\<forall>i. 1 \<le> i \<and> i < length processed \<longrightarrow>
            transition_gaps cfg processed ! (i - 1) =
              max (base_gap (layout cfg))
                  (if 0 < excl_n (processed ! i)
                   then excl_h (processed ! i) + 2 * clearance (box_geometry cfg) else 0) \<and>
            centers_y cfg processed ! i =
              centers_y cfg processed ! (i - 1) + main_h (processed ! (i - 1)) / 2
              + transition_gaps cfg processed ! (i - 1) + main_h (processed ! i) / 2) \<and>
         total_height cfg processed =
           centers_y cfg processed ! (length processed - 1)
           + main_h (processed ! (length processed - 1)) / 2 + bottom_margin (layout cfg)"
proof -
  have ne: "centers_y cfg processed \<noteq> []"
    using centers_y_nth(1) [OF assms, of cfg] assms by auto
  have "total_height cfg processed =
           centers_y cfg processed ! (length processed - 1)
           + main_h (processed ! (length processed - 1)) / 2 + bottom_margin (layout cfg)"
    using assms ne centers_y_nth(1) [OF assms, of cfg]
    by (simp add: total_height_def last_conv_nth)
  then show ?thesis
    using centers_y_nth [OF assms] transition_gaps_nth by simp
qed

theorem layout_formulas_witness:
  "[\<lparr>n_curr = 100, excl_n = 0, title_lines = [''Step 1''], body_lines = [''(n = 100)''],
      excl_lines = [''Excluded'', ''(n = 0)''], color_hex = ''#ffffff'',
      excl_color = ''#ffffff'', main_h = 1.6, excl_h = 1.2\<rparr>,
    \<lparr>n_curr = 80, excl_n = 20, title_lines = [''Step 2''], body_lines = [''(n = 80)''],
      excl_lines = [''Not eligible'', ''(n = 20)''], color_hex = ''#ffffff'',
      excl_color = ''#ffffff'', main_h = 1.6, excl_h = 1.2\<rparr>] \<noteq> [] \<and>
   transition_gaps fallback_config
     [\<lparr>n_curr = 100, excl_n = 0, title_lines = [''Step 1''], body_lines = [''(n = 100)''],
        excl_lines = [''Excluded'', ''(n = 0)''], color_hex = ''#ffffff'',
        excl_color = ''#ffffff'', main_h = 1.6, excl_h = 1.2\<rparr>,
      \<lparr>n_curr = 80, excl_n = 20, title_lines = [''Step 2''], body_lines = [''(n = 80)''],
        excl_lines = [''Not eligible'', ''(n = 20)''], color_hex = ''#ffffff'',
        excl_color = ''#ffffff'', main_h = 1.6, excl_h = 1.2\<rparr>] ! 0 = 1.6 \<and>
   centers_y fallback_config
     [\<lparr>n_curr = 100, excl_n = 0, title_lines = [''Step 1''], body_lines = [''(n = 100)''],
        excl_lines = [''Excluded'', ''(n = 0)''], color_hex = ''#ffffff'',
        excl_color = ''#ffffff'', main_h = 1.6, excl_h = 1.2\<rparr>,
      \<lparr>n_curr = 80, excl_n = 20, title_lines = [''Step 2''], body_lines = [''(n = 80)''],
        excl_lines = [''Not eligible'', ''(n = 20)''], color_hex = ''#ffffff'',
        excl_color = ''#ffffff'', main_h = 1.6, excl_h = 1.2\<rparr>] ! 1 = 4.8 \<and>
   total_height fallback_config
     [\<lparr>n_curr = 100, excl_n = 0, title_lines = [''Step 1''], body_lines = [''(n = 100)''],
        excl_lines = [''Excluded'', ''(n = 0)''], color_hex = ''#ffffff'',
        excl_color = ''#ffffff'', main_h = 1.6, excl_h = 1.2\<rparr>,
      \<lparr>n_curr = 80, excl_n = 20, title_lines = [''Step 2''], body_lines = [''(n = 80)''],
        excl_lines = [''Not eligible'', ''(n = 20)''], color_hex = ''#ffffff'',
        excl_color = ''#ffffff'', main_h = 1.6, excl_h = 1.2\<rparr>] = 6.4"
proof -
  define ps where "ps =
     [\<lparr>n_curr = 100, excl_n = 0, title_lines = [''Step 1''], body_lines = [''(n = 100)''],
        excl_lines = [''Excluded'', ''(n = 0)''], color_hex = ''#ffffff'',
        excl_color = ''#ffffff'', main_h = 1.6, excl_h = 1.2\<rparr>,
      \<lparr>n_curr = 80, excl_n = 20, title_lines = [''Step 2''], body_lines = [''(n = 80)''],
        excl_lines = [''Not eligible'', ''(n = 20)''], color_hex = ''#ffffff'',
        excl_color = ''#ffffff'', main_h = 1.6, excl_h = 1.2\<rparr>]"
  have ne: "ps \<noteq> []" by (simp add: ps_def)
  note f = layout_formulas [OF ne, of fallback_config]
  have c0: "centers_y fallback_config ps ! 0 = 1.6"
    using f by (simp add: ps_def fallback_config_def)
  from f have "1 \<le> (1::nat) \<and> 1 < length ps \<longrightarrow>
      transition_gaps fallback_config ps ! (1 - 1) =
        max (base_gap (layout fallback_config))
            (if 0 < excl_n (ps ! 1)
             then excl_h (ps ! 1) + 2 * clearance (box_geometry fallback_config) else 0) \<and>
      centers_y fallback_config ps ! 1 =
        centers_y fallback_config ps ! (1 - 1) + main_h (ps ! (1 - 1)) / 2
        + transition_gaps fallback_config ps ! (1 - 1) + main_h (ps ! 1) / 2"
    by blast
  then have g: "transition_gaps fallback_config ps ! 0 = 1.6"
    and c1: "centers_y fallback_config ps ! 1 = 4.8"
    using c0 by (simp_all add: ps_def fallback_config_def)
  have "total_height fallback_config ps = 6.4"
    using f c1 by (simp add: ps_def fallback_config_def)
  then show ?thesis using ne g c1 unfolding ps_def by simp
qed

subsection \<open>Monotone layout\<close>

lemma bind_err_Inr: "bind_err r f = Inr y \<longleftrightarrow> (\<exists>x. r = Inr x \<and> f x = Inr y)"
  by (cases r) (simp_all add: bind_err_def)

lemma bind_err_simps [simp]: "bind_err (Inl e) f = Inl e" "bind_err (Inr x) f = f x"
  by (simp_all add: bind_err_def)






subsection \<open>Gradient palettes\<close>

lemma canonical_hex_channels:
  assumes "canonical_hex h"
  shows "\<exists>r g b. hex_to_rgb h = Inr (r, g, b) \<and> rgb_to_hex (r, g, b) = h"
proof -
  from assms obtain ds where h: "h = CHR ''#'' # ds" "length ds = 6"
      "list_all is_hex_digit ds" "map py_lower ds = ds"
    by (auto simp: canonical_hex_def split: list.splits)
  from six_digits_channels [OF h(2,3)] h(1,4) show ?thesis by auto
qed

lemma py_round_of_int [simp]: "py_round (of_int k) = k"
  by (simp add: py_round_def)

lemma interpolate_color_total:
  assumes "hex_to_rgb s = Inr (sr, sg, sb)" "hex_to_rgb e = Inr (er, eg, eb)"
  shows "interpolate_color s e t =
           Inr (rgb_to_hex
             (py_round (of_int sr + of_int (er - sr) * t),
              py_round (of_int sg + of_int (eg - sg) * t),
              py_round (of_int sb + of_int (eb - sb) * t)))"
  using assms by (simp add: interpolate_color_def)

lemma interpolate_color_ends:
  assumes "hex_to_rgb s = Inr (sr, sg, sb)" "hex_to_rgb e = Inr (er, eg, eb)"
  shows "interpolate_color s e 0 = Inr (rgb_to_hex (sr, sg, sb))"
    and "interpolate_color s e 1 = Inr (rgb_to_hex (er, eg, eb))"
proof -
  have eq: "real_of_int sr + real_of_int (er - sr) * 1 = real_of_int er"
    "real_of_int sg + real_of_int (eg - sg) * 1 = real_of_int eg"
    "real_of_int sb + real_of_int (eb - sb) * 1 = real_of_int eb"
    by simp_all
  show "interpolate_color s e 1 = Inr (rgb_to_hex (er, eg, eb))"
    unfolding interpolate_color_total [OF assms] eq py_round_of_int ..
  show "interpolate_color s e 0 = Inr (rgb_to_hex (sr, sg, sb))"
    unfolding interpolate_color_total [OF assms] by simp
qed

lemma collect_map_Inr:
  "\<forall>x\<in>set xs. f x = Inr (g x) \<Longrightarrow> collect (map f xs) = Inr (map g xs)"
  by (induction xs) simp_all

text \<open>
  What \<^verbatim>\<open>gradient_palette\<close> does for \<open>n > 1\<close> when the colour parser accepts both
  endpoints: it returns \<open>n\<close> colours, the first the canonical form of the start and the
  last the canonical form of the end.
\<close>

lemma gradient_palette_many:
  assumes n: "1 < n" and s: "to_hex cmap start = Inr s_hex" and e: "to_hex cmap end = Inr e_hex"
  shows "\<exists>pal. gradient_palette cmap start end n = Inr pal \<and> length pal = nat n \<and>
           pal ! 0 = s_hex \<and> pal ! (nat n - 1) = e_hex"
proof -
  obtain sr sg sb where sc: "hex_to_rgb s_hex = Inr (sr, sg, sb)" "rgb_to_hex (sr, sg, sb) = s_hex"
    using canonical_hex_channels [OF to_hex_canonical [OF s]] by blast
  obtain er eg eb where ec: "hex_to_rgb e_hex = Inr (er, eg, eb)" "rgb_to_hex (er, eg, eb) = e_hex"
    using canonical_hex_channels [OF to_hex_canonical [OF e]] by blast
  define f where "f = (\<lambda>i. interpolate_color s_hex e_hex (real i / real_of_int (n - 1)))"
  define g where "g = (\<lambda>i::nat. rgb_to_hex
             (py_round (of_int sr + of_int (er - sr) * (real i / real_of_int (n - 1))),
              py_round (of_int sg + of_int (eg - sg) * (real i / real_of_int (n - 1))),
              py_round (of_int sb + of_int (eb - sb) * (real i / real_of_int (n - 1)))))"
  have fg: "f i = Inr (g i)" for i
    unfolding f_def g_def by (rule interpolate_color_total [OF sc(1) ec(1)])
  then have c: "collect (map f [0 ..< nat n]) = Inr (map g [0 ..< nat n])"
    by (simp add: collect_map_Inr)
  have pal: "gradient_palette cmap start end n = Inr (map g [0 ..< nat n])"
    using n s e c by (simp add: gradient_palette_def f_def)
  have "f 0 = interpolate_color s_hex e_hex 0" by (simp add: f_def)
  then have g0: "g 0 = s_hex"
    using interpolate_color_ends(1) [OF sc(1) ec(1)] fg [of 0] sc(2) by simp
  have t1: "real (nat n - 1) / real_of_int (n - 1) = 1" using n by (simp add: of_nat_diff)
  have "f (nat n - 1) = interpolate_color s_hex e_hex 1" unfolding f_def t1 ..
  then have g1: "g (nat n - 1) = e_hex"
    using interpolate_color_ends(2) [OF sc(1) ec(1)] fg [of "nat n - 1"] ec(2) by simp
  have len: "0 < nat n" "nat n - 1 < nat n" using n by simp_all
  show ?thesis
    using pal g0 g1 len by (simp del: upt_Suc)
qed

text \<open>With equal endpoints every entry is the canonical form of that colour.\<close>

lemma gradient_palette_constant:
  assumes n: "1 < n" and c: "to_hex cmap c = Inr h"
  shows "gradient_palette cmap c c n = Inr (replicate (nat n) h)"
proof -
  obtain r g b where ch: "hex_to_rgb h = Inr (r, g, b)" "rgb_to_hex (r, g, b) = h"
    using canonical_hex_channels [OF to_hex_canonical [OF c]] by blast
  have "interpolate_color h h t = Inr h" for t
    unfolding interpolate_color_total [OF ch(1) ch(1)] using ch(2) by simp
  then have "collect (map (\<lambda>i. interpolate_color h h (real i / real_of_int (n - 1))) [0 ..< nat n])
      = Inr (map (\<lambda>i. h) [0 ..< nat n])"
    by (simp add: collect_map_Inr)
  then show ?thesis
    using n c by (simp add: gradient_palette_def map_replicate_const)
qed

lemma to_hex_white: "to_hex Map.empty ''#ffffff'' = Inr ''#ffffff''"
  by code_simp

lemma white_palettes:
  assumes "1 < length data"
  shows "main_palette_of Map.empty fallback_config no_kwargs data =
           Inr (replicate (length data) ''#ffffff'')"
    and "excl_palette_of Map.empty fallback_config no_kwargs data =
           Inr (replicate (length data) ''#ffffff'')"
  using assms gradient_palette_constant [OF _ to_hex_white, of "int (length data)"]
  by (simp_all add: main_palette_of_def excl_palette_of_def palette_or_def no_kwargs_def
        fallback_config_def)



subsection \<open>Ordering of the counts\<close>

lemma process_loop_first_error:
  assumes "\<forall>j\<in>set js. \<exists>p. f j = Inr p" and "f i = Inl e"
  shows "process_loop f (js @ i # ks) acc = Inl e"
  using assms by (induction js arbitrary: acc) auto

lemma process_node_ordering:
  assumes "0 < i" and "N (data ! (i - 1)) < N (data ! i)"
  shows "process_node cmap cfg main_pal excl_pal data i =
           Inl (ValueError (ordering_message i (N (data ! i))))"
  using assms by (simp add: process_node_def Let_def)

text \<open>
  C2, as stated, fails twice. The message of the error names the index and the count of the
  node, not the previous count: the cohorts 50, 100 and 70, 100 raise the same error. And
  the error names the first index at which a count increases: in the cohort 10, 20, 30 the
  count of node 2 exceeds that of node 1, and the error names node 1.
\<close>

theorem ordering_error_counterexample:
  "plot_cohort_flow_diagram Map.empty fallback_config no_kwargs
     [(plain_node 50)\<lparr>heading := Some ''A''\<rparr>, (plain_node 100)\<lparr>heading := Some ''B''\<rparr>] =
     Inl (ValueError ''Node 1 has more patients (100) than previous step.'') \<and>
   plot_cohort_flow_diagram Map.empty fallback_config no_kwargs
     [(plain_node 70)\<lparr>heading := Some ''A''\<rparr>, (plain_node 100)\<lparr>heading := Some ''B''\<rparr>] =
     Inl (ValueError ''Node 1 has more patients (100) than previous step.'') \<and>
   plot_cohort_flow_diagram Map.empty fallback_config no_kwargs
     [plain_node 10, plain_node 20, plain_node 30] =
     Inl (ValueError ''Node 1 has more patients (20) than previous step.'')"
proof -
  let ?a = "[(plain_node 50)\<lparr>heading := Some ''A''\<rparr>, (plain_node 100)\<lparr>heading := Some ''B''\<rparr>]"
  let ?b = "[(plain_node 70)\<lparr>heading := Some ''A''\<rparr>, (plain_node 100)\<lparr>heading := Some ''B''\<rparr>]"
  let ?c = "[plain_node 10, plain_node 20, plain_node 30]"
  let ?w2 = "[''#ffffff'', ''#ffffff'']"
  let ?w3 = "[''#ffffff'', ''#ffffff'', ''#ffffff'']"
  have a: "process_nodes Map.empty fallback_config ?w2 ?w2 ?a =
      Inl (ValueError ''Node 1 has more patients (100) than previous step.'')"
    by code_simp
  have b: "process_nodes Map.empty fallback_config ?w2 ?w2 ?b =
      Inl (ValueError ''Node 1 has more patients (100) than previous step.'')"
    by code_simp
  have c: "process_nodes Map.empty fallback_config ?w3 ?w3 ?c =
      Inl (ValueError ''Node 1 has more patients (20) than previous step.'')"
    by code_simp
  have pa: "main_palette_of Map.empty fallback_config no_kwargs ?a = Inr ?w2"
    "excl_palette_of Map.empty fallback_config no_kwargs ?a = Inr ?w2"
    using white_palettes [of ?a] by (simp_all add: numeral_2_eq_2)
  have pb: "main_palette_of Map.empty fallback_config no_kwargs ?b = Inr ?w2"
    "excl_palette_of Map.empty fallback_config no_kwargs ?b = Inr ?w2"
    using white_palettes [of ?b] by (simp_all add: numeral_2_eq_2)
  have pc: "main_palette_of Map.empty fallback_config no_kwargs ?c = Inr ?w3"
    "excl_palette_of Map.empty fallback_config no_kwargs ?c = Inr ?w3"
    using white_palettes [of ?c] by (simp_all add: numeral_3_eq_3)
  have "plot_cohort_flow_diagram Map.empty fallback_config no_kwargs ?a =
      Inl (ValueError ''Node 1 has more patients (100) than previous step.'')"
    using pa a by (simp add: plot_cohort_flow_diagram_def)
  moreover have "plot_cohort_flow_diagram Map.empty fallback_config no_kwargs ?b =
      Inl (ValueError ''Node 1 has more patients (100) than previous step.'')"
    using pb b by (simp add: plot_cohort_flow_diagram_def)
  moreover have "plot_cohort_flow_diagram Map.empty fallback_config no_kwargs ?c =
      Inl (ValueError ''Node 1 has more patients (20) than previous step.'')"
    using pc c by (simp add: plot_cohort_flow_diagram_def)
  ultimately show ?thesis by blast
qed

text \<open>
  C2, amended: when the count of node \<open>i \<ge> 1\<close> exceeds the count of node \<open>i - 1\<close>,
  processing node \<open>i\<close> raises a \<^verbatim>\<open>ValueError\<close> whose message names the index and the
  count of node \<open>i\<close> (not the previous count); and the render fails with this very error
  when both palettes were obtained and every node before \<open>i\<close> was processed without error,
  that is, when \<open>i\<close> is the first node that fails.
\<close>

theorem ordering_error_names_index_and_count:
  assumes "0 < i" and "i < length data" and "N (data ! (i - 1)) < N (data ! i)"
    and "main_palette_of cmap cfg kw data = Inr main_pal"
    and "excl_palette_of cmap cfg kw data = Inr excl_pal"
    and "\<forall>j<i. \<exists>p. process_node cmap cfg main_pal excl_pal data j = Inr p"
  shows "process_node cmap cfg main_pal excl_pal data i =
           Inl (ValueError (''Node '' @ str_int (int i) @ '' has more patients ('' @
                  str_int (N (data ! i)) @ '') than previous step.'')) \<and>
         plot_cohort_flow_diagram cmap cfg kw data =
           Inl (ValueError (''Node '' @ str_int (int i) @ '' has more patients ('' @
                  str_int (N (data ! i)) @ '') than previous step.''))"
proof -
  have e: "process_node cmap cfg main_pal excl_pal data i =
      Inl (ValueError (ordering_message i (N (data ! i))))"
    by (rule process_node_ordering [OF assms(1,3)])
  have "[0 ..< length data] = [0 ..< i] @ [i ..< length data]"
    using assms(2) upt_add_eq_append [of 0 i "length data - i"] by simp
  then have "[0 ..< length data] = [0 ..< i] @ i # [Suc i ..< length data]"
    using assms(2) by (simp add: upt_conv_Cons)
  then have "process_nodes cmap cfg main_pal excl_pal data =
      Inl (ValueError (ordering_message i (N (data ! i))))"
    using process_loop_first_error [of "[0 ..< i]" "process_node cmap cfg main_pal excl_pal data"
        i _ "[Suc i ..< length data]" "[]"] e assms(6)
    by (simp add: process_nodes_def)
  moreover have "data \<noteq> []" using assms(2) by auto
  ultimately show ?thesis
    using e assms(4,5) by (simp add: plot_cohort_flow_diagram_def ordering_message_def)
qed

theorem ordering_error_names_index_and_count_witness:
  "(0::nat) < 1 \<and> 1 < length [plain_node 50, plain_node 100] \<and>
   N ([plain_node 50, plain_node 100] ! (1 - 1)) < N ([plain_node 50, plain_node 100] ! 1) \<and>
   main_palette_of Map.empty fallback_config no_kwargs [plain_node 50, plain_node 100] =
     Inr [''#ffffff'', ''#ffffff''] \<and>
   excl_palette_of Map.empty fallback_config no_kwargs [plain_node 50, plain_node 100] =
     Inr [''#ffffff'', ''#ffffff''] \<and>
   (\<exists>p. process_node Map.empty fallback_config [''#ffffff'', ''#ffffff'']
          [''#ffffff'', ''#ffffff''] [plain_node 50, plain_node 100] 0 = Inr p) \<and>
   plot_cohort_flow_diagram Map.empty fallback_config no_kwargs [plain_node 50, plain_node 100] =
     Inl (ValueError ''Node 1 has more patients (100) than previous step.'')"
proof -
  let ?data = "[plain_node 50, plain_node 100]"
  let ?pal = "[''#ffffff'', ''#ffffff'']"
  have pal: "main_palette_of Map.empty fallback_config no_kwargs ?data = Inr ?pal"
    "excl_palette_of Map.empty fallback_config no_kwargs ?data = Inr ?pal"
    using white_palettes [of ?data] by (simp_all add: numeral_2_eq_2)
  have "map_sum id n_curr
      (process_node Map.empty fallback_config ?pal ?pal ?data 0) = Inr 50"
    by code_simp
  then have p0: "\<exists>p. process_node Map.empty fallback_config ?pal ?pal ?data 0 = Inr p"
    by (cases "process_node Map.empty fallback_config ?pal ?pal ?data 0") auto
  then have before: "\<forall>j<1. \<exists>p. process_node Map.empty fallback_config ?pal ?pal ?data j = Inr p"
    by simp
  have i: "(0::nat) < 1" "1 < length ?data" "N (?data ! (1 - 1)) < N (?data ! 1)"
    by (simp_all add: plain_node_def)
  have s: "str_int (int 1) = ''1''" "str_int (N (?data ! 1)) = ''100''"
    by code_simp+
  show ?thesis
    using ordering_error_names_index_and_count [OF i pal before] i pal p0 s
    by simp
qed

subsection \<open>Exclusion lines\<close>

text \<open>
  C8, as stated, fails for a description that is present but empty: the fallback
  \<^verbatim>\<open>"Excluded"\<close> is the default of \<^verbatim>\<open>dict.get\<close>, used only when the key is
  absent. For the cohort 100, 80 whose second node has the empty description, the exclusion
  lines of that node are the count line alone, whereas the wrapped fallback is the line
  \<^verbatim>\<open>Excluded\<close>.
\<close>

theorem exclusion_lines_empty_description_counterexample:
  "map_sum id (map excl_lines \<circ> fst)
     (plot_cohort_flow_diagram Map.empty fallback_config no_kwargs
        [plain_node 100, (plain_node 80)\<lparr>exclusion_description := Some []\<rparr>]) =
     Inr [[''Excluded'', ''(n = 0)''], [''(n = 20)'']] \<and>
   wrap_lines ''Excluded'' (exclusion_text_width (layout fallback_config)) = Inr [''Excluded'']"
proof -
  let ?d = "[plain_node 100, (plain_node 80)\<lparr>exclusion_description := Some []\<rparr>]"
  let ?w2 = "[''#ffffff'', ''#ffffff'']"
  have p: "main_palette_of Map.empty fallback_config no_kwargs ?d = Inr ?w2"
    "excl_palette_of Map.empty fallback_config no_kwargs ?d = Inr ?w2"
    using white_palettes [of ?d] by (simp_all add: numeral_2_eq_2)
  have "map_sum id (map excl_lines) (process_nodes Map.empty fallback_config ?w2 ?w2 ?d) =
      Inr [[''Excluded'', ''(n = 0)''], [''(n = 20)'']]"
    by code_simp
  then have "map_sum id (map excl_lines \<circ> fst)
     (plot_cohort_flow_diagram Map.empty fallback_config no_kwargs ?d) =
     Inr [[''Excluded'', ''(n = 0)''], [''(n = 20)'']]"
    using p
    by (cases "process_nodes Map.empty fallback_config ?w2 ?w2 ?d")
       (simp_all add: plot_cohort_flow_diagram_def)
  moreover have "wrap_lines ''Excluded'' (exclusion_text_width (layout fallback_config)) =
      Inr [''Excluded'']"
    by code_simp
  ultimately show ?thesis by blast
qed

text \<open>
  C8, amended: for every node that is processed, the exclusion lines are
  \<^verbatim>\<open>wrap_lines\<close> of the stripped exclusion description, where \<^verbatim>\<open>"Excluded"\<close>
  stands in only when the key is absent, followed by the line \<^verbatim>\<open>(n = k)\<close> for the
  excluded count \<open>k\<close>, which is the previous count minus the node's count (zero for the first
  node). A description that is empty or blank gives the count line alone.
\<close>

theorem exclusion_lines_of_processed_node:
  assumes "process_node cmap cfg main_pal excl_pal data i = Inr p"
  shows "\<exists>wrapped.
           wrap_lines
             (strip (case exclusion_description (data ! i) of
                       None \<Rightarrow> ''Excluded'' | Some d \<Rightarrow> d))
             (exclusion_text_width (layout cfg)) = Inr wrapped \<and>
           excl_lines p = wrapped @ [''(n = '' @ str_int (excl_n p) @ '')''] \<and>
           last (excl_lines p) = ''(n = '' @ str_int (excl_n p) @ '')'' \<and>
           excl_n p = (if 0 < i then N (data ! (i - 1)) else N (data ! i)) - N (data ! i) \<and>
           (\<forall>d. exclusion_description (data ! i) = Some d \<and> strip d = [] \<longrightarrow>
                excl_lines p = [''(n = '' @ str_int (excl_n p) @ '')''])"
  using assms
  by (auto simp: process_node_def Let_def bind_err_Inr count_line_def wrap_lines_def
           split: if_splits)

theorem exclusion_lines_of_processed_node_witness:
  "(\<exists>p. process_node Map.empty fallback_config [''#ffffff'', ''#ffffff'', ''#ffffff'']
          [''#ffffff'', ''#ffffff'', ''#ffffff''] sample_data 1 = Inr p \<and>
        excl_lines p = [''Not eligible'', ''(n = 20)''] \<and> excl_n p = 20) \<and>
   wrap_lines (strip ''Not eligible'') (exclusion_text_width (layout fallback_config)) =
     Inr [''Not eligible'']"
proof -
  let ?w3 = "[''#ffffff'', ''#ffffff'', ''#ffffff'']"
  have "map_sum id (\<lambda>p. (excl_lines p, excl_n p))
      (process_node Map.empty fallback_config ?w3 ?w3 sample_data 1) =
      Inr ([''Not eligible'', ''(n = 20)''], 20)"
    by code_simp
  then obtain p where p: "process_node Map.empty fallback_config ?w3 ?w3 sample_data 1 = Inr p"
    "excl_lines p = [''Not eligible'', ''(n = 20)'']" "excl_n p = 20"
    by (cases "process_node Map.empty fallback_config ?w3 ?w3 sample_data 1") auto
  have d: "exclusion_description (sample_data ! 1) = Some ''Not eligible''"
    by (simp add: sample_data_def plain_node_def)
  from exclusion_lines_of_processed_node [OF p(1)] obtain wrapped where
    w: "wrap_lines (strip ''Not eligible'') (exclusion_text_width (layout fallback_config)) =
          Inr wrapped"
      "excl_lines p = wrapped @ [''(n = '' @ str_int (excl_n p) @ '')'']"
    unfolding d by auto
  from w(2) p(2) have "wrapped = [''Not eligible'']"
    by (metis append1_eq_conv append_Cons append_Nil)
  then show ?thesis using p w(1) by auto
qed


end
